theory Spec2Isabelle
  imports Main "HOL-Library.Word"
begin

section \<open>Types of the Go runtime and of the Kubernetes API used by the sources\<close>

text \<open>
  Go's \<open>int64\<close> is a 64-bit word; comparisons with \<open>0\<close> are signed (\<open><s\<close>).
  \<open>time.Duration\<close> is an \<open>int64\<close> count of nanoseconds.  A \<open>time.Time\<close> is modelled by
  the instant it denotes, as an integer number of nanoseconds; \<open>t.Add(d)\<close> moves the instant
  by \<open>d\<close> nanoseconds and \<open>time.Second\<close> is \<open>10^9\<close> of them.
\<close>

type_synonym int64 = "64 word"
type_synonym Duration = int64
type_synonym Time = int

definition time_Second :: int where
  "time_Second = 1000000000"

definition time_Add :: "Time \<Rightarrow> int \<Rightarrow> Time" where
  "time_Add t d = t + d"

text \<open>
  An \<open>error\<close> value built by \<open>fmt.Errorf\<close> keeps its format string and arguments; an error
  handed back by a collaborator outside these sources is \<open>External\<close>.
\<close>

datatype error = Errorf string "string list" | External string

text \<open>
  The fields of \<open>v1.PodLogOptions\<close> that \<open>ToPodLogOptions\<close> writes.  A nil pointer is
  \<open>None\<close>.
\<close>

record v1_PodLogOptions =
  Container :: string
  Follow :: bool
  Previous :: bool
  SinceSeconds :: "int64 option"
  SinceTime :: "Time option"
  Timestamps :: bool
  TailLines :: "int64 option"
  LimitBytes :: "int64 option"

section \<open>internal/dao/log_options.go\<close>

record LogOptions =
  CreateDuration :: Duration
  Path :: string
  Container :: string
  DefaultContainer :: string
  SinceTime :: string
  Lines :: int64
  SinceSeconds :: int64
  Head :: bool
  Previous :: bool
  SingleContainer :: bool
  MultiPods :: bool
  ShowTimestamp :: bool
  AllContainers :: bool

text \<open>
  \<open>Clone\<close> builds a new struct from a composite literal.  The literal names twelve fields;
  a field it does not name (\<open>CreateDuration\<close>) has Go's zero value.
\<close>

definition Clone :: "LogOptions \<Rightarrow> LogOptions" where
  "Clone lo =
     \<lparr> CreateDuration = 0,
       Path = Path lo,
       Container = Container lo,
       DefaultContainer = DefaultContainer lo,
       SinceTime = SinceTime lo,
       Lines = Lines lo,
       SinceSeconds = SinceSeconds lo,
       Head = Head lo,
       Previous = Previous lo,
       SingleContainer = SingleContainer lo,
       MultiPods = MultiPods lo,
       ShowTimestamp = ShowTimestamp lo,
       AllContainers = AllContainers lo \<rparr>"

text \<open>
  \<open>ToggleAllContainers\<close> mutates its receiver; the model returns the receiver's new contents.
\<close>

definition ToggleAllContainers :: "LogOptions \<Rightarrow> LogOptions" where
  "ToggleAllContainers lo =
     (if SingleContainer lo then lo
      else
        let lo1 = lo\<lparr>AllContainers := \<not> AllContainers lo\<rparr> in
        if AllContainers lo1
        then lo1\<lparr>DefaultContainer := Container lo1, Container := []\<rparr>
        else if DefaultContainer lo1 \<noteq> []
        then lo1\<lparr>Container := DefaultContainer lo1\<rparr>
        else lo1)"

text \<open>
  \<open>ToPodLogOptions\<close>.  \<open>time.Parse(time.RFC3339, _)\<close> belongs to the Go standard library
  and is a parameter: \<open>None\<close> is a parse error, \<open>Some t\<close> the parsed instant.
\<close>

definition ToPodLogOptions :: "(string \<Rightarrow> Time option) \<Rightarrow> LogOptions \<Rightarrow> v1_PodLogOptions" where
  "ToPodLogOptions parse_RFC3339 lo =
     (let opts = \<lparr> v1_PodLogOptions.Container = Container lo,
                    Follow = True,
                    v1_PodLogOptions.Previous = Previous lo,
                    v1_PodLogOptions.SinceSeconds = None,
                    v1_PodLogOptions.SinceTime = None,
                    Timestamps = True,
                    TailLines = Some (Lines lo),
                    LimitBytes = None \<rparr>
      in
      if Head lo then
        opts\<lparr> Follow := False,
              TailLines := None,
              v1_PodLogOptions.SinceSeconds := None,
              v1_PodLogOptions.SinceTime := None,
              LimitBytes := Some 5000 \<rparr>
      else if SinceSeconds lo <s 0 then opts
      else if SinceSeconds lo \<noteq> 0 then
        opts\<lparr> v1_PodLogOptions.SinceSeconds := Some (SinceSeconds lo),
              v1_PodLogOptions.SinceTime := None \<rparr>
      else if SinceTime lo = [] then opts
      else
        (case parse_RFC3339 (SinceTime lo) of
           Some t \<Rightarrow> opts\<lparr> v1_PodLogOptions.SinceTime := Some (time_Add t time_Second) \<rparr>
         | None \<Rightarrow> opts))"

subsection \<open>Pointers to options\<close>

text \<open>
  Both methods have pointer receivers.  A store is the list of the allocated structs and a
  pointer is an index into it; a nil or dangling pointer is a failed dereference (\<open>None\<close>).
  \<open>Clone\<close> allocates: the new struct is appended and its index returned.
\<close>

type_synonym store = "LogOptions list"

definition Clone_ptr :: "store \<Rightarrow> nat \<Rightarrow> (store \<times> nat) option" where
  "Clone_ptr h p = (if p < length h then Some (h @ [Clone (h ! p)], length h) else None)"

definition ToggleAllContainers_ptr :: "store \<Rightarrow> nat \<Rightarrow> store option" where
  "ToggleAllContainers_ptr h p =
     (if p < length h then Some (h[p := ToggleAllContainers (h ! p)]) else None)"

section \<open>internal/dao/container.go\<close>

text \<open>
  The parts of the Kubernetes objects that \<open>Container.List\<close> reads: a container and a
  container status carry a name, a pod its declared init containers and containers, its
  status lists and its creation time.
\<close>

record v1_Container =
  Name :: string
  Image :: string

record v1_ContainerStatus =
  Name :: string
  Ready :: bool

record mv1beta1_ContainerMetrics =
  Name :: string
  Usage :: "string \<rightharpoonup> int"

record v1_PodSpec =
  InitContainers :: "v1_Container list"
  Containers :: "v1_Container list"

record v1_PodStatus =
  ContainerStatuses :: "v1_ContainerStatus list"
  InitContainerStatuses :: "v1_ContainerStatus list"

record v1_Pod =
  Spec :: v1_PodSpec
  Status :: v1_PodStatus
  CreationTimestamp :: Time

text \<open>\<open>client.ContainersMetrics\<close> is a Go map; reading a nil map gives the zero value.\<close>

type_synonym ContainersMetrics = "string \<rightharpoonup> mv1beta1_ContainerMetrics"

record render_ContainerRes =
  Container :: v1_Container
  Status :: "v1_ContainerStatus option"
  MX :: "mv1beta1_ContainerMetrics option"
  IsInit :: bool
  Age :: Time

text \<open>
  The context values \<open>List\<close> asks for: \<open>ctx.Value(k).(T)\<close> is \<open>None\<close> when the key is
  absent or holds another type (the \<open>ok\<close> of the type assertion is false).
\<close>

record Context =
  KeyPath :: "string option"
  KeyWithMetrics :: "bool option"

text \<open>
  The receiver and its collaborators, none of which is in these sources: the metrics
  client (\<open>FetchContainersMetrics\<close> returns a Go pair of a map and an error), the factory's
  \<open>Get\<close> and the converter from unstructured objects, which fills a pod and returns an
  error.
\<close>

record 'u Container_dao =
  gvr :: string
  FetchContainersMetrics :: "string \<Rightarrow> ContainersMetrics \<times> error option"
  Factory_Get :: "string \<Rightarrow> string \<Rightarrow> error + 'u"
  FromUnstructured :: "'u \<Rightarrow> v1_Pod \<times> error option"

fun findStatus :: "string \<Rightarrow> v1_ContainerStatus list \<Rightarrow> v1_ContainerStatus option" where
  "findStatus co [] = None"
| "findStatus co (c # cs) = (if v1_ContainerStatus.Name c = co then Some c else findStatus co cs)"

definition getContainerStatus :: "string \<Rightarrow> v1_PodStatus \<Rightarrow> v1_ContainerStatus option" where
  "getContainerStatus co status =
     (case findStatus co (ContainerStatuses status) of
        Some c \<Rightarrow> Some c
      | None \<Rightarrow> findStatus co (InitContainerStatuses status))"

definition makeContainerRes ::
  "v1_Container \<Rightarrow> v1_Pod \<Rightarrow> mv1beta1_ContainerMetrics option \<Rightarrow> bool \<Rightarrow> render_ContainerRes" where
  "makeContainerRes co po cmx isInit =
     \<lparr> render_ContainerRes.Container = co,
       render_ContainerRes.Status = getContainerStatus (v1_Container.Name co) (v1_Pod.Status po),
       MX = cmx,
       IsInit = isInit,
       Age = CreationTimestamp po \<rparr>"

text \<open>
  \<open>fetchPod\<close> returns the pod together with the converter's error; its only caller drops
  the pod when the error is set, so the model returns one or the other.
\<close>

definition fetchPod :: "'u Container_dao \<Rightarrow> string \<Rightarrow> error + v1_Pod" where
  "fetchPod c fqn =
     (case Factory_Get c ''v1/pods'' fqn of
        Inl err \<Rightarrow> Inl err
      | Inr obj \<Rightarrow>
          (case FromUnstructured c obj of
             (po, Some err) \<Rightarrow> Inl err
           | (po, None) \<Rightarrow> Inr po))"

text \<open>One \<open>for ... range\<close> loop of \<open>List\<close>: each container is appended to \<open>res\<close>.\<close>

fun appendContainers ::
  "render_ContainerRes list \<Rightarrow> v1_Container list \<Rightarrow> v1_Pod \<Rightarrow> ContainersMetrics \<Rightarrow> bool
     \<Rightarrow> render_ContainerRes list" where
  "appendContainers res [] po cmx isInit = res"
| "appendContainers res (co # cos) po cmx isInit =
     appendContainers (res @ [makeContainerRes co po (cmx (v1_Container.Name co)) isInit])
       cos po cmx isInit"

definition List :: "'u Container_dao \<Rightarrow> Context \<Rightarrow> error + render_ContainerRes list" where
  "List c ctx =
     (case KeyPath ctx of
        None \<Rightarrow> Inl (Errorf ''no context path for %q'' [gvr c])
      | Some fqn \<Rightarrow>
          let (withMx, ok) = (case KeyWithMetrics ctx of Some b \<Rightarrow> (b, True) | None \<Rightarrow> (False, False));
              cmx = (if withMx \<or> \<not> ok then fst (FetchContainersMetrics c fqn) else Map.empty)
          in
          (case fetchPod c fqn of
             Inl err \<Rightarrow> Inl err
           | Inr po \<Rightarrow>
               let res = [];
                   res = appendContainers res (InitContainers (Spec po)) po cmx True;
                   res = appendContainers res (Containers (Spec po)) po cmx False
               in Inr res))"

section \<open>internal/view: the logs extender and the image extender\<close>

text \<open>
  What a handler reads from the view it wraps: the table's selected item and current path.
\<close>

record Table =
  SelectedItem :: string
  Path :: string

text \<open>The logger section of the configuration (its declaration is outside these sources).\<close>

record Logger =
  TailCount :: int64
  ShowTime :: bool

record imageFormSpec =
  name :: string
  dockerImage :: string
  newDockerImage :: string
  init :: bool
  traceLog :: bool
  newTraceLog :: bool

text \<open>
  A form is its input fields (label and initial value) and the labels of its buttons; the
  callbacks attached to them run later, on user input, not in the handler.
\<close>

record Form =
  inputs :: "(string \<times> string) list"
  buttons :: "string list"

record Modal =
  modal_title :: string
  modal_text :: string
  modal_form :: Form

text \<open>
  A handler acts on the application through calls whose order matters: suspending and
  resuming the interactive loop, flashing an error, injecting a log view, adding and showing
  a page.  A run of a handler is the list of these calls, in order.
\<close>

datatype event =
    Stop
  | Start
  | FlashErr error
  | Inject string LogOptions bool
  | AddPage string Modal bool bool
  | ShowPage string

type_synonym EventKey = nat

text \<open>
  The logs extender with its collaborators: \<open>client.Namespaced\<close>, the factory's access
  check (\<open>None\<close> is a nil error), the optional \<open>optionsFn\<close> and the application's \<open>inject\<close>.
\<close>

record LogsExtender =
  table :: Table
  GVR :: string
  logger :: Logger
  Namespaced :: "string \<Rightarrow> string \<times> string"
  CanForResource :: "string \<Rightarrow> string \<Rightarrow> error option"
  optionsFn :: "(bool \<Rightarrow> error + LogOptions) option"
  inject :: "string \<Rightarrow> LogOptions \<Rightarrow> error option"

definition isResourcePath :: "(string \<Rightarrow> string \<times> string) \<Rightarrow> string \<Rightarrow> bool" where
  "isResourcePath namespaced p = (case namespaced p of (ns, n) \<Rightarrow> ns \<noteq> [] \<and> n \<noteq> [])"

definition buildLogOpts :: "LogsExtender \<Rightarrow> string \<Rightarrow> string \<Rightarrow> bool \<Rightarrow> LogOptions" where
  "buildLogOpts l path co prevLogs =
     (let cfg = logger l;
          opts = \<lparr> CreateDuration = 0,
                   LogOptions.Path = path,
                   LogOptions.Container = co,
                   DefaultContainer = [],
                   SinceTime = [],
                   Lines = TailCount cfg,
                   SinceSeconds = 0,
                   Head = False,
                   Previous = prevLogs,
                   SingleContainer = False,
                   MultiPods = False,
                   ShowTimestamp = ShowTime cfg,
                   AllContainers = False \<rparr>
      in if LogOptions.Container opts = [] then opts\<lparr>AllContainers := True\<rparr> else opts)"

definition showLogs :: "LogsExtender \<Rightarrow> string \<Rightarrow> bool \<Rightarrow> event list" where
  "showLogs l path prev =
     (case Namespaced l path of (ns, _) \<Rightarrow>
        (case CanForResource l ns ''v1/pods'' of
           Some err \<Rightarrow> [FlashErr err]
         | None \<Rightarrow>
             (case (case optionsFn l of
                      None \<Rightarrow> Inr (buildLogOpts l path [] prev)
                    | Some f \<Rightarrow> f prev) of
                Inl err \<Rightarrow> [FlashErr err]
              | Inr opts \<Rightarrow>
                  Inject (GVR l) opts False #
                  (case inject l (GVR l) opts of
                     Some err \<Rightarrow> [FlashErr err]
                   | None \<Rightarrow> []))))"

text \<open>
  A handler returns the event it passes on (always nil, \<open>None\<close>) and the calls it made.
\<close>

definition logsCmd :: "LogsExtender \<Rightarrow> bool \<Rightarrow> EventKey \<Rightarrow> EventKey option \<times> event list" where
  "logsCmd l prev evt =
     (let path = SelectedItem (table l) in
      if path = [] then (None, [])
      else
        let path = (if \<not> isResourcePath (Namespaced l) path then Table.Path (table l) else path)
        in (None, showLogs l path prev))"

text \<open>
  The image extender.  \<open>dao.AccessorFor\<close> is outside these sources; the accessor it returns
  may or may not have the \<open>ContainsPodSpec\<close> capability (the type assertion's \<open>ok\<close>).
\<close>

record Accessor =
  accessor_type :: string
  GetPodSpec :: "(string \<Rightarrow> error + v1_PodSpec) option"

record ImageExtender =
  table :: Table
  GVR :: string
  Namespaced :: "string \<Rightarrow> string \<times> string"
  AccessorFor :: "string \<Rightarrow> error + Accessor"

definition imageKey :: string where
  "imageKey = ''setImage''"

definition getPodSpec :: "ImageExtender \<Rightarrow> string \<Rightarrow> error + v1_PodSpec" where
  "getPodSpec s path =
     (case AccessorFor s (ImageExtender.GVR s) of
        Inl err \<Rightarrow> Inl err
      | Inr res \<Rightarrow>
          (case GetPodSpec res of
             None \<Rightarrow> Inl (Errorf ''expecting a ContainsPodSpec for %q but got %T''
                            [ImageExtender.GVR s, accessor_type res])
           | Some get \<Rightarrow> get path))"

fun appendFormLines :: "imageFormSpec list \<Rightarrow> v1_Container list \<Rightarrow> bool \<Rightarrow> imageFormSpec list" where
  "appendFormLines ls [] isInit = ls"
| "appendFormLines ls (spec # specs) isInit =
     appendFormLines
       (ls @ [\<lparr> name = v1_Container.Name spec, dockerImage = Image spec, newDockerImage = [],
                init = isInit, traceLog = False, newTraceLog = False \<rparr>])
       specs isInit"

fun addInputFields :: "Form \<Rightarrow> imageFormSpec list \<Rightarrow> Form" where
  "addInputFields f [] = f"
| "addInputFields f (ctn # ctns) =
     addInputFields (f\<lparr>inputs := inputs f @ [(name ctn, dockerImage ctn)]\<rparr>) ctns"

definition makeStyledForm :: Form where
  "makeStyledForm = \<lparr> inputs = [], buttons = [] \<rparr>"

definition AddButton :: "string \<Rightarrow> Form \<Rightarrow> Form" where
  "AddButton label f = f\<lparr>buttons := buttons f @ [label]\<rparr>"

definition makeSetImageForm :: "ImageExtender \<Rightarrow> string \<Rightarrow> error + Form" where
  "makeSetImageForm s sel =
     (let f = makeStyledForm in
      case getPodSpec s sel of
        Inl err \<Rightarrow> Inl err
      | Inr podSpec \<Rightarrow>
          let formContainerLines = [];
              formContainerLines = appendFormLines formContainerLines (InitContainers podSpec) True;
              formContainerLines = appendFormLines formContainerLines (Containers podSpec) False;
              f = addInputFields f formContainerLines;
              f = AddButton ''OK'' f;
              f = AddButton ''Cancel'' f
          in Inr f)"

text \<open>
  \<open>showImageDialog\<close> returns its error (\<open>None\<close> is nil) and the calls it made.
  \<open>fmt.Sprintf("Set image %s %s", gvr, path)\<close> is written out.
\<close>

definition showImageDialog :: "ImageExtender \<Rightarrow> string \<Rightarrow> error option \<times> event list" where
  "showImageDialog s path =
     (case makeSetImageForm s path of
        Inl err \<Rightarrow> (Some err, [])
      | Inr form \<Rightarrow>
          let confirm = \<lparr> modal_title = ''<Set image>'',
                          modal_text = ''Set image '' @ ImageExtender.GVR s @ '' '' @ path,
                          modal_form = form \<rparr>
          in (None, [AddPage imageKey confirm False False, ShowPage imageKey]))"

text \<open>
  \<open>defer s.Start()\<close> is registered after \<open>s.Stop()\<close> and runs when the handler returns:
  \<open>Start\<close> is the last call of every run that reached \<open>Stop\<close>.
\<close>

definition setImageCmd :: "ImageExtender \<Rightarrow> EventKey \<Rightarrow> EventKey option \<times> event list" where
  "setImageCmd s evt =
     (let path = SelectedItem (ImageExtender.table s) in
      if path = [] then (None, [])
      else
        (case showImageDialog s path of
           (err, calls) \<Rightarrow>
             (None,
              [Stop] @ calls @ (case err of Some e \<Rightarrow> [FlashErr e] | None \<Rightarrow> []) @ [Start])))"

text \<open>
  \<open>makeSetTraceLogsForm\<close> reads the namespace of the path for its callbacks, adds the
  \<open>Pod Name\<close> input and three buttons, and has no failing return.
\<close>

definition makeSetTraceLogsForm :: "ImageExtender \<Rightarrow> string \<Rightarrow> error + Form" where
  "makeSetTraceLogsForm s path =
     (let f = makeStyledForm;
          f = f\<lparr>inputs := inputs f @ [(''Pod Name'', [])]\<rparr>;
          f = AddButton ''Start'' f;
          f = AddButton ''Stop'' f;
          f = AddButton ''Cancel'' f
      in Inr f)"

definition showTraceLogsDialog :: "ImageExtender \<Rightarrow> string \<Rightarrow> error option \<times> event list" where
  "showTraceLogsDialog s path =
     (case makeSetTraceLogsForm s path of
        Inl err \<Rightarrow> (Some err, [])
      | Inr form \<Rightarrow>
          let confirm = \<lparr> modal_title = ''<Trace Logs>'', modal_text = [], modal_form = form \<rparr>
          in (None, [AddPage imageKey confirm False False, ShowPage imageKey]))"

definition setTraceLogsCmd :: "ImageExtender \<Rightarrow> EventKey \<Rightarrow> EventKey option \<times> event list" where
  "setTraceLogsCmd s evt =
     (let path = SelectedItem (ImageExtender.table s) in
      if path = [] then (None, [])
      else
        (case showTraceLogsDialog s path of
           (err, calls) \<Rightarrow>
             (None,
              [Stop] @ calls @ (case err of Some e \<Rightarrow> [FlashErr e] | None \<Rightarrow> []) @ [Start])))"

text \<open>
  The interactive loop is suspended after \<open>Stop\<close> and running after \<open>Start\<close>.
\<close>

fun suspended :: "bool \<Rightarrow> event list \<Rightarrow> bool" where
  "suspended b [] = b"
| "suspended b (Stop # es) = suspended True es"
| "suspended b (Start # es) = suspended False es"
| "suspended b (_ # es) = suspended b es"

section \<open>Sample inputs\<close>

text \<open>
  Options, a timestamp parser that knows one timestamp, a container view whose selected
  item is a container name, a pod with one init container and one container, an image
  extender over an accessor, and a container accessor whose metrics fetch fails.
\<close>

definition sample_opts :: LogOptions where
  "sample_opts =
     \<lparr> CreateDuration = 1, Path = ''ns/web-0'', Container = ''main'',
       DefaultContainer = [], SinceTime = ''2023-01-01T00:00:00Z'', Lines = 100,
       SinceSeconds = 0, Head = False, Previous = False, SingleContainer = False,
       MultiPods = False, ShowTimestamp = True, AllContainers = False \<rparr>"

definition sample_parse :: "string \<Rightarrow> Time option" where
  "sample_parse s =
     (if s = ''2023-01-01T00:00:00Z'' then Some 1672531200000000000 else None)"

definition sample_Namespaced :: "string \<Rightarrow> string \<times> string" where
  "sample_Namespaced p = (if p = ''ns/web-0'' then (''ns'', ''web-0'') else ([], p))"

definition sample_logs :: LogsExtender where
  "sample_logs =
     \<lparr> LogsExtender.table = \<lparr> SelectedItem = ''main'', Table.Path = ''ns/web-0'' \<rparr>,
       LogsExtender.GVR = ''containers'',
       logger = \<lparr> TailCount = 100, ShowTime = True \<rparr>,
       LogsExtender.Namespaced = sample_Namespaced,
       CanForResource = (\<lambda>ns g. None),
       optionsFn = None,
       inject = (\<lambda>g opts. None) \<rparr>"

definition sample_podspec :: v1_PodSpec where
  "sample_podspec =
     \<lparr> InitContainers = [\<lparr> v1_Container.Name = ''init-a'', Image = ''busybox'' \<rparr>],
       Containers = [\<lparr> v1_Container.Name = ''main'', Image = ''nginx'' \<rparr>] \<rparr>"

definition sample_pod :: v1_Pod where
  "sample_pod =
     \<lparr> Spec = sample_podspec,
       v1_Pod.Status =
         \<lparr> ContainerStatuses = [\<lparr> v1_ContainerStatus.Name = ''main'', Ready = True \<rparr>],
           InitContainerStatuses = [\<lparr> v1_ContainerStatus.Name = ''init-a'', Ready = True \<rparr>] \<rparr>,
       CreationTimestamp = 0 \<rparr>"

definition sample_image :: "(string \<Rightarrow> error + Accessor) \<Rightarrow> ImageExtender" where
  "sample_image accessorFor =
     \<lparr> ImageExtender.table = \<lparr> SelectedItem = ''ns/web-0'', Table.Path = ''ns'' \<rparr>,
       ImageExtender.GVR = ''v1/pods'',
       ImageExtender.Namespaced = sample_Namespaced,
       AccessorFor = accessorFor \<rparr>"

definition sample_accessor_ok :: "string \<Rightarrow> error + Accessor" where
  "sample_accessor_ok g =
     Inr \<lparr> accessor_type = ''*dao.Pod'', GetPodSpec = Some (\<lambda>path. Inr sample_podspec) \<rparr>"

definition sample_accessor_fails :: "string \<Rightarrow> error + Accessor" where
  "sample_accessor_fails g = Inl (External ''no accessor'')"

definition sample_dao :: "v1_Pod Container_dao" where
  "sample_dao =
     \<lparr> gvr = ''containers'',
       FetchContainersMetrics = (\<lambda>fqn. (Map.empty, Some (External ''metrics unavailable''))),
       Factory_Get = (\<lambda>g fqn. if fqn = ''ns/web-0'' then Inr sample_pod
                                 else Inl (External ''not found'')),
       FromUnstructured = (\<lambda>u. (u, None)) \<rparr>"

definition sample_ctx :: Context where
  "sample_ctx = \<lparr> KeyPath = Some ''ns/web-0'', KeyWithMetrics = None \<rparr>"

section \<open>Properties\<close>

subsection \<open>Loops and call sequences\<close>

lemma appendContainers_map:
  "appendContainers res cs po cmx isInit =
     res @ map (\<lambda>co. makeContainerRes co po (cmx (v1_Container.Name co)) isInit) cs"
  by (induction cs arbitrary: res) simp_all

lemma suspended_Start: "suspended b (es @ [Start]) = False"
  by (induction b es rule: suspended.induct) simp_all

subsection \<open>Log options\<close>

lemma Clone_copies_named_fields:
  "LogOptions.Path (Clone lo) = LogOptions.Path lo \<and>
   LogOptions.Container (Clone lo) = LogOptions.Container lo \<and>
   DefaultContainer (Clone lo) = DefaultContainer lo \<and> SinceTime (Clone lo) = SinceTime lo \<and>
   Lines (Clone lo) = Lines lo \<and> SinceSeconds (Clone lo) = SinceSeconds lo \<and>
   Head (Clone lo) = Head lo \<and> Previous (Clone lo) = Previous lo \<and>
   SingleContainer (Clone lo) = SingleContainer lo \<and> MultiPods (Clone lo) = MultiPods lo \<and>
   ShowTimestamp (Clone lo) = ShowTimestamp lo \<and> AllContainers (Clone lo) = AllContainers lo"
  by (simp add: Clone_def)

lemma Clone_resets_CreateDuration: "CreateDuration (Clone lo) = 0"
  by (simp add: Clone_def)

lemma Clone_eq_iff: "Clone lo = lo \<longleftrightarrow> CreateDuration lo = 0"
  by (cases lo) (auto simp: Clone_def)

lemma Clone_ptr_fresh:
  assumes "Clone_ptr h p = Some (h', q)"
  shows "q \<noteq> p \<and> q < length h' \<and> p < length h' \<and> h' ! p = h ! p \<and> h' ! q = Clone (h ! p)"
  using assms by (auto simp: Clone_ptr_def nth_append split: if_splits)

lemma Clone_ptr_independent:
  assumes "Clone_ptr h p = Some (h', q)"
  shows "(h'[q := v]) ! p = h ! p \<and> (h'[p := v]) ! q = Clone (h ! p)"
  using assms by (auto simp: Clone_ptr_def nth_append nth_list_update split: if_splits)

lemma Clone_ptr_toggle_clone:
  assumes "Clone_ptr h p = Some (h', q)" and "ToggleAllContainers_ptr h' q = Some h''"
  shows "h'' ! p = h ! p"
  using assms
  by (auto simp: Clone_ptr_def ToggleAllContainers_ptr_def nth_append split: if_splits)

lemma Clone_ptr_toggle_original:
  assumes "Clone_ptr h p = Some (h', q)" and "ToggleAllContainers_ptr h' p = Some h''"
  shows "h'' ! q = Clone (h ! p)"
  using assms
  by (auto simp: Clone_ptr_def ToggleAllContainers_ptr_def nth_append split: if_splits)

text \<open>
  Claim C1 asks for a clone equal to the original in every field, \<open>CreateDuration\<close>
  included.  On the sample options, whose \<open>CreateDuration\<close> is one nanosecond, the clone
  has \<open>CreateDuration = 0\<close> and so differs from the original, while the twelve fields that
  the literal names are copied.
\<close>

theorem Clone_drops_CreateDuration:
  "CreateDuration sample_opts = 1 \<and> CreateDuration (Clone sample_opts) = 0 \<and>
   Clone sample_opts \<noteq> sample_opts \<and>
   Clone sample_opts = sample_opts\<lparr>CreateDuration := 0\<rparr>"
  by (simp add: Clone_def sample_opts_def)

text \<open>
  Claim C2: with \<open>Head\<close> set, the fetch parameters have \<open>Follow\<close> off, \<open>TailLines\<close>,
  \<open>SinceSeconds\<close> and \<open>SinceTime\<close> nil and \<open>LimitBytes\<close> pointing to the cap of 5000 bytes,
  whatever the other fields and whatever the timestamp parser does.
\<close>

theorem ToPodLogOptions_head:
  assumes "Head lo"
  shows "\<not> Follow (ToPodLogOptions parse lo) \<and>
         TailLines (ToPodLogOptions parse lo) = None \<and>
         v1_PodLogOptions.SinceSeconds (ToPodLogOptions parse lo) = None \<and>
         v1_PodLogOptions.SinceTime (ToPodLogOptions parse lo) = None \<and>
         LimitBytes (ToPodLogOptions parse lo) = Some 5000"
  using assms by (simp add: ToPodLogOptions_def)

theorem ToPodLogOptions_head_witness:
  "Head (sample_opts\<lparr>Head := True\<rparr>) \<and>
   \<not> Follow (ToPodLogOptions sample_parse (sample_opts\<lparr>Head := True\<rparr>)) \<and>
   TailLines (ToPodLogOptions sample_parse (sample_opts\<lparr>Head := True\<rparr>)) = None \<and>
   v1_PodLogOptions.SinceTime (ToPodLogOptions sample_parse (sample_opts\<lparr>Head := True\<rparr>)) = None \<and>
   LimitBytes (ToPodLogOptions sample_parse (sample_opts\<lparr>Head := True\<rparr>)) = Some 5000"
proof -
  have h: "Head (sample_opts\<lparr>Head := True\<rparr>)" by simp
  show ?thesis
    using h ToPodLogOptions_head [OF h, of sample_parse] by simp
qed

text \<open>
  Claim C3: without \<open>Head\<close>, a negative \<open>SinceSeconds\<close> gives fetch parameters with
  neither \<open>SinceSeconds\<close> nor \<open>SinceTime\<close>, whatever the \<open>SinceTime\<close> field holds; a
  positive \<open>SinceSeconds\<close> is carried over and \<open>SinceTime\<close> stays nil.
\<close>

theorem ToPodLogOptions_since_seconds:
  assumes "\<not> Head lo"
  shows "(SinceSeconds lo <s 0 \<longrightarrow>
            v1_PodLogOptions.SinceSeconds (ToPodLogOptions parse lo) = None \<and>
            v1_PodLogOptions.SinceTime (ToPodLogOptions parse lo) = None) \<and>
         (0 <s SinceSeconds lo \<longrightarrow>
            v1_PodLogOptions.SinceSeconds (ToPodLogOptions parse lo) = Some (SinceSeconds lo) \<and>
            v1_PodLogOptions.SinceTime (ToPodLogOptions parse lo) = None)"
proof (intro conjI impI)
  assume neg: "SinceSeconds lo <s 0"
  with assms show "v1_PodLogOptions.SinceSeconds (ToPodLogOptions parse lo) = None"
    and "v1_PodLogOptions.SinceTime (ToPodLogOptions parse lo) = None"
    by (simp_all add: ToPodLogOptions_def)
next
  assume pos: "0 <s SinceSeconds lo"
  then have "\<not> SinceSeconds lo <s 0" and "SinceSeconds lo \<noteq> 0"
    by (auto simp: word_sless_alt)
  with assms show
    "v1_PodLogOptions.SinceSeconds (ToPodLogOptions parse lo) = Some (SinceSeconds lo)"
    and "v1_PodLogOptions.SinceTime (ToPodLogOptions parse lo) = None"
    by (simp_all add: ToPodLogOptions_def)
qed

theorem ToPodLogOptions_since_seconds_witness:
  "\<not> Head (sample_opts\<lparr>SinceSeconds := - 1\<rparr>) \<and>
   SinceSeconds (sample_opts\<lparr>SinceSeconds := - 1\<rparr>) <s 0 \<and>
   v1_PodLogOptions.SinceSeconds (ToPodLogOptions sample_parse (sample_opts\<lparr>SinceSeconds := - 1\<rparr>)) = None \<and>
   v1_PodLogOptions.SinceTime (ToPodLogOptions sample_parse (sample_opts\<lparr>SinceSeconds := - 1\<rparr>)) = None \<and>
   \<not> Head (sample_opts\<lparr>SinceSeconds := 60\<rparr>) \<and>
   0 <s SinceSeconds (sample_opts\<lparr>SinceSeconds := 60\<rparr>) \<and>
   v1_PodLogOptions.SinceSeconds (ToPodLogOptions sample_parse (sample_opts\<lparr>SinceSeconds := 60\<rparr>)) = Some 60 \<and>
   v1_PodLogOptions.SinceTime (ToPodLogOptions sample_parse (sample_opts\<lparr>SinceSeconds := 60\<rparr>)) = None"
proof -
  have h1: "\<not> Head (sample_opts\<lparr>SinceSeconds := - 1\<rparr>)"
    and h2: "\<not> Head (sample_opts\<lparr>SinceSeconds := 60\<rparr>)"
    by (simp_all add: sample_opts_def)
  have n: "SinceSeconds (sample_opts\<lparr>SinceSeconds := - 1\<rparr>) <s 0"
    and p: "0 <s SinceSeconds (sample_opts\<lparr>SinceSeconds := 60\<rparr>)"
    by (simp_all add: word_sless_alt)
  show ?thesis
    using h1 h2 n p
      ToPodLogOptions_since_seconds [OF h1, of sample_parse]
      ToPodLogOptions_since_seconds [OF h2, of sample_parse]
    by simp
qed

text \<open>
  Claim C4: without \<open>Head\<close> and with \<open>SinceSeconds = 0\<close>, a \<open>SinceTime\<close> that parses
  gives the parsed instant plus one second as the boundary; a non-empty \<open>SinceTime\<close> that
  does not parse gives no boundary, and the parameters are those of an empty \<open>SinceTime\<close>.
  The function has no error result.  The parser is any function that rejects the empty
  string, as \<open>time.Parse\<close> does.
\<close>

theorem ToPodLogOptions_since_time:
  assumes "\<not> Head lo" and "SinceSeconds lo = 0" and "parse [] = None"
  shows "(\<forall>t. parse (SinceTime lo) = Some t \<longrightarrow>
            v1_PodLogOptions.SinceTime (ToPodLogOptions parse lo) = Some (t + time_Second) \<and>
            v1_PodLogOptions.SinceSeconds (ToPodLogOptions parse lo) = None) \<and>
         (SinceTime lo \<noteq> [] \<and> parse (SinceTime lo) = None \<longrightarrow>
            v1_PodLogOptions.SinceTime (ToPodLogOptions parse lo) = None \<and>
            v1_PodLogOptions.SinceSeconds (ToPodLogOptions parse lo) = None \<and>
            ToPodLogOptions parse lo = ToPodLogOptions parse (lo\<lparr>SinceTime := []\<rparr>))"
proof (intro conjI allI impI)
  fix t assume ok: "parse (SinceTime lo) = Some t"
  with assms(3) have "SinceTime lo \<noteq> []" by auto
  with assms ok show
    "v1_PodLogOptions.SinceTime (ToPodLogOptions parse lo) = Some (t + time_Second)"
    and "v1_PodLogOptions.SinceSeconds (ToPodLogOptions parse lo) = None"
    by (simp_all add: ToPodLogOptions_def time_Add_def)
next
  assume bad: "SinceTime lo \<noteq> [] \<and> parse (SinceTime lo) = None"
  with assms show "v1_PodLogOptions.SinceTime (ToPodLogOptions parse lo) = None"
    and "v1_PodLogOptions.SinceSeconds (ToPodLogOptions parse lo) = None"
    and "ToPodLogOptions parse lo = ToPodLogOptions parse (lo\<lparr>SinceTime := []\<rparr>)"
    by (simp_all add: ToPodLogOptions_def)
qed

theorem ToPodLogOptions_since_time_witness:
  "\<not> Head sample_opts \<and> SinceSeconds sample_opts = 0 \<and> sample_parse [] = None \<and>
   sample_parse (SinceTime sample_opts) = Some 1672531200000000000 \<and>
   v1_PodLogOptions.SinceTime (ToPodLogOptions sample_parse sample_opts)
     = Some 1672531201000000000 \<and>
   SinceTime (sample_opts\<lparr>SinceTime := ''yesterday''\<rparr>) \<noteq> [] \<and>
   sample_parse (SinceTime (sample_opts\<lparr>SinceTime := ''yesterday''\<rparr>)) = None \<and>
   v1_PodLogOptions.SinceTime
     (ToPodLogOptions sample_parse (sample_opts\<lparr>SinceTime := ''yesterday''\<rparr>)) = None"
proof -
  let ?bad = "sample_opts\<lparr>SinceTime := ''yesterday''\<rparr>"
  have h1: "\<not> Head sample_opts" and h2: "SinceSeconds sample_opts = 0"
    and h3: "sample_parse [] = None"
    by (simp_all add: sample_opts_def sample_parse_def)
  have g1: "\<not> Head ?bad" and g2: "SinceSeconds ?bad = 0"
    by (simp_all add: sample_opts_def)
  have p1: "sample_parse (SinceTime sample_opts) = Some 1672531200000000000"
    by (simp add: sample_opts_def sample_parse_def)
  have p2: "SinceTime ?bad \<noteq> [] \<and> sample_parse (SinceTime ?bad) = None"
    by (simp add: sample_parse_def)
  from ToPodLogOptions_since_time [where lo = sample_opts and parse = sample_parse, OF h1 h2 h3] p1
  have r1: "v1_PodLogOptions.SinceTime (ToPodLogOptions sample_parse sample_opts)
              = Some (1672531200000000000 + time_Second)"
    by blast
  from ToPodLogOptions_since_time [where lo = ?bad and parse = sample_parse, OF g1 g2 h3] p2
  have r2: "v1_PodLogOptions.SinceTime (ToPodLogOptions sample_parse ?bad) = None"
    by blast
  from r1 have r1': "v1_PodLogOptions.SinceTime (ToPodLogOptions sample_parse sample_opts)
              = Some 1672531201000000000"
    by (simp add: time_Second_def)
  from h1 h2 h3 p1 p2 r1' r2 show ?thesis by blast
qed

text \<open>
  Claim C5: with \<open>SingleContainer\<close> set, \<open>ToggleAllContainers\<close> changes nothing, once or
  twice.  Otherwise one call flips \<open>AllContainers\<close>; flipping it on moves the container
  name into \<open>DefaultContainer\<close> and empties \<open>Container\<close>, and a second call puts a
  non-empty name back and turns \<open>AllContainers\<close> off again.
\<close>

theorem ToggleAllContainers_toggle:
  "(SingleContainer lo \<longrightarrow>
      ToggleAllContainers lo = lo \<and> ToggleAllContainers (ToggleAllContainers lo) = lo) \<and>
   (\<not> SingleContainer lo \<longrightarrow>
      AllContainers (ToggleAllContainers lo) = (\<not> AllContainers lo)) \<and>
   (\<not> SingleContainer lo \<and> \<not> AllContainers lo \<longrightarrow>
      DefaultContainer (ToggleAllContainers lo) = LogOptions.Container lo \<and>
      LogOptions.Container (ToggleAllContainers lo) = [] \<and>
      (LogOptions.Container lo \<noteq> [] \<longrightarrow>
         LogOptions.Container (ToggleAllContainers (ToggleAllContainers lo))
           = LogOptions.Container lo \<and>
         \<not> AllContainers (ToggleAllContainers (ToggleAllContainers lo))))"
  by (simp add: ToggleAllContainers_def Let_def)

theorem ToggleAllContainers_toggle_witness:
  "SingleContainer (sample_opts\<lparr>SingleContainer := True\<rparr>) \<and>
   ToggleAllContainers (ToggleAllContainers (sample_opts\<lparr>SingleContainer := True\<rparr>))
     = sample_opts\<lparr>SingleContainer := True\<rparr> \<and>
   \<not> SingleContainer sample_opts \<and> \<not> AllContainers sample_opts \<and>
   LogOptions.Container sample_opts \<noteq> [] \<and>
   AllContainers (ToggleAllContainers sample_opts) \<and>
   DefaultContainer (ToggleAllContainers sample_opts) = ''main'' \<and>
   LogOptions.Container (ToggleAllContainers sample_opts) = [] \<and>
   LogOptions.Container (ToggleAllContainers (ToggleAllContainers sample_opts)) = ''main''"
proof -
  have s: "SingleContainer (sample_opts\<lparr>SingleContainer := True\<rparr>)" by simp
  have n: "\<not> SingleContainer sample_opts" "\<not> AllContainers sample_opts"
    "LogOptions.Container sample_opts \<noteq> []" "LogOptions.Container sample_opts = ''main''"
    by (simp_all add: sample_opts_def)
  show ?thesis
    using s n ToggleAllContainers_toggle [of "sample_opts\<lparr>SingleContainer := True\<rparr>"]
      ToggleAllContainers_toggle [of sample_opts]
    by simp
qed

subsection \<open>Command handlers\<close>

text \<open>
  Claim C6: \<open>isResourcePath p\<close> holds exactly when both parts that \<open>client.Namespaced\<close>
  returns for \<open>p\<close> are non-empty; and for a non-empty selection that is not such a path,
  the logs handler returns nil after showing the logs of the table's current path.
\<close>

theorem isResourcePath_logsCmd:
  "(isResourcePath nsd p \<longleftrightarrow> fst (nsd p) \<noteq> [] \<and> snd (nsd p) \<noteq> []) \<and>
   (SelectedItem (LogsExtender.table l) \<noteq> [] \<and>
    \<not> isResourcePath (LogsExtender.Namespaced l) (SelectedItem (LogsExtender.table l)) \<longrightarrow>
      logsCmd l prev evt = (None, showLogs l (Table.Path (LogsExtender.table l)) prev))"
  by (simp add: isResourcePath_def logsCmd_def Let_def split: prod.splits)

theorem isResourcePath_logsCmd_witness:
  "SelectedItem (LogsExtender.table sample_logs) \<noteq> [] \<and>
   \<not> isResourcePath (LogsExtender.Namespaced sample_logs)
       (SelectedItem (LogsExtender.table sample_logs)) \<and>
   isResourcePath sample_Namespaced ''ns/web-0'' \<and>
   logsCmd sample_logs False 0 =
     (None, [Inject ''containers'' (buildLogOpts sample_logs ''ns/web-0'' [] False) False])"
proof -
  have h: "SelectedItem (LogsExtender.table sample_logs) \<noteq> [] \<and>
     \<not> isResourcePath (LogsExtender.Namespaced sample_logs)
         (SelectedItem (LogsExtender.table sample_logs))"
    by (simp add: sample_logs_def sample_Namespaced_def isResourcePath_def)
  have r: "isResourcePath sample_Namespaced ''ns/web-0''"
    using isResourcePath_logsCmd [of sample_Namespaced "''ns/web-0''"]
    by (simp add: sample_Namespaced_def)
  have s: "showLogs sample_logs (Table.Path (LogsExtender.table sample_logs)) False =
      [Inject ''containers'' (buildLogOpts sample_logs ''ns/web-0'' [] False) False]"
    by (simp add: showLogs_def sample_logs_def sample_Namespaced_def)
  from isResourcePath_logsCmd [of _ _ sample_logs False 0] h
  have "logsCmd sample_logs False 0 =
      (None, showLogs sample_logs (Table.Path (LogsExtender.table sample_logs)) False)"
    by blast
  with h r s show ?thesis by simp
qed

text \<open>
  Claim C7: with an empty selection the logs handler and the set-image handler return nil
  and make no call at all: no notification, no dialog, no suspension of the loop.
\<close>

theorem empty_selection_noop:
  "(SelectedItem (LogsExtender.table l) = [] \<longrightarrow> logsCmd l prev evt = (None, [])) \<and>
   (SelectedItem (ImageExtender.table s) = [] \<longrightarrow> setImageCmd s evt = (None, []))"
  by (simp add: logsCmd_def setImageCmd_def)

theorem empty_selection_noop_witness:
  "SelectedItem (LogsExtender.table
      (sample_logs\<lparr>LogsExtender.table := \<lparr> SelectedItem = [], Table.Path = ''ns/web-0'' \<rparr>\<rparr>)) = [] \<and>
   logsCmd (sample_logs\<lparr>LogsExtender.table := \<lparr> SelectedItem = [], Table.Path = ''ns/web-0'' \<rparr>\<rparr>)
      True 0 = (None, []) \<and>
   SelectedItem (ImageExtender.table
      ((sample_image sample_accessor_ok)
         \<lparr>ImageExtender.table := \<lparr> SelectedItem = [], Table.Path = ''ns'' \<rparr>\<rparr>)) = [] \<and>
   setImageCmd ((sample_image sample_accessor_ok)
         \<lparr>ImageExtender.table := \<lparr> SelectedItem = [], Table.Path = ''ns'' \<rparr>\<rparr>) 0 = (None, [])"
  using empty_selection_noop
    [where l = "sample_logs\<lparr>LogsExtender.table := \<lparr> SelectedItem = [], Table.Path = ''ns/web-0'' \<rparr>\<rparr>"
       and prev = True and evt = 0
       and s = "(sample_image sample_accessor_ok)
           \<lparr>ImageExtender.table := \<lparr> SelectedItem = [], Table.Path = ''ns'' \<rparr>\<rparr>"]
  by simp

text \<open>
  Claim C9: with a non-empty selection the set-image handler's calls start with \<open>Stop\<close>,
  end with \<open>Start\<close> and have neither in between, so the dialog's calls come after the
  suspension and the loop is running when the handler returns, whatever its state before;
  when showing the dialog fails the calls are \<open>Stop\<close>, the error notification, \<open>Start\<close>.
  The trace-logs handler has the same bracket.
\<close>

theorem setImageCmd_resumes:
  assumes "SelectedItem (ImageExtender.table s) \<noteq> []"
  shows "(\<exists>mid. setImageCmd s evt = (None, Stop # mid @ [Start]) \<and>
                Stop \<notin> set mid \<and> Start \<notin> set mid) \<and>
         \<not> suspended b (snd (setImageCmd s evt)) \<and>
         (\<forall>e. fst (showImageDialog s (SelectedItem (ImageExtender.table s))) = Some e \<longrightarrow>
              setImageCmd s evt = (None, [Stop, FlashErr e, Start])) \<and>
         (\<exists>mid. setTraceLogsCmd s evt = (None, Stop # mid @ [Start]) \<and>
                Stop \<notin> set mid \<and> Start \<notin> set mid) \<and>
         \<not> suspended b (snd (setTraceLogsCmd s evt))"
proof -
  let ?path = "SelectedItem (ImageExtender.table s)"
  obtain err calls where d: "showImageDialog s ?path = (err, calls)"
    by (cases "showImageDialog s ?path")
  let ?mid = "calls @ (case err of Some e \<Rightarrow> [FlashErr e] | None \<Rightarrow> [])"
  have run: "setImageCmd s evt = (None, Stop # ?mid @ [Start])"
    using assms d by (simp add: setImageCmd_def)
  have calls: "Stop \<notin> set calls \<and> Start \<notin> set calls \<and> (err \<noteq> None \<longrightarrow> calls = [])"
    using d by (auto simp: showImageDialog_def Let_def split: sum.splits)
  then have mid: "Stop \<notin> set ?mid \<and> Start \<notin> set ?mid"
    by (auto split: option.splits)
  have sus: "\<not> suspended b (snd (setImageCmd s evt))"
    using suspended_Start [of b "Stop # ?mid"] run by simp
  have fail: "\<forall>e. fst (showImageDialog s ?path) = Some e \<longrightarrow>
                 setImageCmd s evt = (None, [Stop, FlashErr e, Start])"
    using run calls d by auto
  obtain err' calls' where d': "showTraceLogsDialog s ?path = (err', calls')"
    by (cases "showTraceLogsDialog s ?path")
  let ?mid' = "calls' @ (case err' of Some e \<Rightarrow> [FlashErr e] | None \<Rightarrow> [])"
  have run': "setTraceLogsCmd s evt = (None, Stop # ?mid' @ [Start])"
    using assms d' by (simp add: setTraceLogsCmd_def)
  have "Stop \<notin> set calls' \<and> Start \<notin> set calls'"
    using d' by (auto simp: showTraceLogsDialog_def Let_def split: sum.splits)
  then have mid': "Stop \<notin> set ?mid' \<and> Start \<notin> set ?mid'"
    by (auto split: option.splits)
  have sus': "\<not> suspended b (snd (setTraceLogsCmd s evt))"
    using suspended_Start [of b "Stop # ?mid'"] run' by simp
  from run mid sus fail run' mid' sus' show ?thesis by blast
qed

theorem setImageCmd_resumes_witness:
  "SelectedItem (ImageExtender.table (sample_image sample_accessor_fails)) \<noteq> [] \<and>
   fst (showImageDialog (sample_image sample_accessor_fails) ''ns/web-0'')
     = Some (External ''no accessor'') \<and>
   setImageCmd (sample_image sample_accessor_fails) 0
     = (None, [Stop, FlashErr (External ''no accessor''), Start]) \<and>
   \<not> suspended True (snd (setImageCmd (sample_image sample_accessor_fails) 0))"
proof -
  let ?s = "sample_image sample_accessor_fails"
  have h: "SelectedItem (ImageExtender.table ?s) \<noteq> []"
    by (simp add: sample_image_def)
  have p: "SelectedItem (ImageExtender.table ?s) = ''ns/web-0''"
    by (simp add: sample_image_def)
  have f: "fst (showImageDialog ?s ''ns/web-0'') = Some (External ''no accessor'')"
    by (simp add: showImageDialog_def makeSetImageForm_def getPodSpec_def sample_image_def
        sample_accessor_fails_def Let_def)
  from setImageCmd_resumes [OF h, of 0 True] f p
  have "setImageCmd ?s 0 = (None, [Stop, FlashErr (External ''no accessor''), Start])"
    and "\<not> suspended True (snd (setImageCmd ?s 0))"
    by simp_all
  with h f show ?thesis by blast
qed

text \<open>
  Claim C10: \<open>buildLogOpts\<close> with an empty container sets \<open>AllContainers\<close>; with a
  non-empty container it leaves \<open>AllContainers\<close> off and keeps the name; in both cases
  \<open>Lines\<close> and \<open>ShowTimestamp\<close> come from the logger configuration.
\<close>

theorem buildLogOpts_seed:
  "AllContainers (buildLogOpts l path [] prev) \<and>
   LogOptions.Container (buildLogOpts l path [] prev) = [] \<and>
   (co \<noteq> [] \<longrightarrow> \<not> AllContainers (buildLogOpts l path co prev) \<and>
                 LogOptions.Container (buildLogOpts l path co prev) = co) \<and>
   Lines (buildLogOpts l path co prev) = TailCount (logger l) \<and>
   ShowTimestamp (buildLogOpts l path co prev) = ShowTime (logger l) \<and>
   LogOptions.Path (buildLogOpts l path co prev) = path \<and>
   Previous (buildLogOpts l path co prev) = prev"
  by (simp add: buildLogOpts_def Let_def)

theorem buildLogOpts_seed_witness:
  "''main'' \<noteq> [] \<and>
   AllContainers (buildLogOpts sample_logs ''ns/web-0'' [] False) \<and>
   \<not> AllContainers (buildLogOpts sample_logs ''ns/web-0'' ''main'' False) \<and>
   LogOptions.Container (buildLogOpts sample_logs ''ns/web-0'' ''main'' False) = ''main'' \<and>
   Lines (buildLogOpts sample_logs ''ns/web-0'' ''main'' False) = 100 \<and>
   ShowTimestamp (buildLogOpts sample_logs ''ns/web-0'' ''main'' False)"
  using buildLogOpts_seed [of sample_logs "''ns/web-0''" False "''main''"]
  by (simp add: sample_logs_def)

subsection \<open>Listing containers\<close>

text \<open>
  Claim C8: when the context names a pod and the pod is fetched, \<open>List\<close> returns one
  record per declared container, the init containers first and then the containers, each
  in declared order.  The error of the metrics fetch is never looked at, so the list is
  returned whether or not the fetch failed; a failed fetch that hands back a nil map leaves
  every record without metrics.
\<close>

theorem Container_List_records:
  assumes "KeyPath ctx = Some fqn" and "fetchPod c fqn = Inr po"
  shows "\<exists>res. List c ctx = Inr res \<and>
     map render_ContainerRes.Container res = InitContainers (Spec po) @ Containers (Spec po) \<and>
     map IsInit res = replicate (length (InitContainers (Spec po))) True
                      @ replicate (length (Containers (Spec po))) False \<and>
     (snd (FetchContainersMetrics c fqn) \<noteq> None \<and> fst (FetchContainersMetrics c fqn) = Map.empty
        \<longrightarrow> (\<forall>r \<in> set res. MX r = None))"
proof -
  define cmx where "cmx =
    (if (case KeyWithMetrics ctx of Some b \<Rightarrow> b | None \<Rightarrow> True)
     then fst (FetchContainersMetrics c fqn) else Map.empty)"
  define res where "res =
    map (\<lambda>co. makeContainerRes co po (cmx (v1_Container.Name co)) True) (InitContainers (Spec po))
    @ map (\<lambda>co. makeContainerRes co po (cmx (v1_Container.Name co)) False) (Containers (Spec po))"
  have L: "List c ctx = Inr res"
    using assms
    by (simp add: List_def Let_def appendContainers_map res_def cmx_def split: option.splits)
  have C: "map render_ContainerRes.Container res = InitContainers (Spec po) @ Containers (Spec po)"
    by (simp add: res_def makeContainerRes_def comp_def)
  have I: "map IsInit res = replicate (length (InitContainers (Spec po))) True
                      @ replicate (length (Containers (Spec po))) False"
    by (simp add: res_def makeContainerRes_def comp_def map_replicate_const)
  have M: "\<forall>r \<in> set res. MX r = None" if "fst (FetchContainersMetrics c fqn) = Map.empty"
  proof -
    from that have "cmx = Map.empty" by (simp add: cmx_def)
    then show ?thesis by (auto simp: res_def makeContainerRes_def)
  qed
  from L C I M show ?thesis by blast
qed

theorem Container_List_records_witness:
  "KeyPath sample_ctx = Some ''ns/web-0'' \<and> fetchPod sample_dao ''ns/web-0'' = Inr sample_pod \<and>
   snd (FetchContainersMetrics sample_dao ''ns/web-0'') \<noteq> None \<and>
   fst (FetchContainersMetrics sample_dao ''ns/web-0'') = Map.empty \<and>
   (\<exists>res. List sample_dao sample_ctx = Inr res \<and>
      map (\<lambda>r. v1_Container.Name (render_ContainerRes.Container r)) res = [''init-a'', ''main''] \<and>
      map IsInit res = [True, False] \<and>
      map MX res = [None, None])"
proof -
  have h1: "KeyPath sample_ctx = Some ''ns/web-0''"
    by (simp add: sample_ctx_def)
  have h2: "fetchPod sample_dao ''ns/web-0'' = Inr sample_pod"
    by (simp add: fetchPod_def sample_dao_def)
  have m: "snd (FetchContainersMetrics sample_dao ''ns/web-0'') \<noteq> None \<and>
           fst (FetchContainersMetrics sample_dao ''ns/web-0'') = Map.empty"
    by (simp add: sample_dao_def)
  from Container_List_records [OF h1 h2] m
  obtain res where L: "List sample_dao sample_ctx = Inr res"
    and C: "map render_ContainerRes.Container res
              = InitContainers (Spec sample_pod) @ Containers (Spec sample_pod)"
    and I: "map IsInit res = replicate (length (InitContainers (Spec sample_pod))) True
              @ replicate (length (Containers (Spec sample_pod))) False"
    and M: "\<forall>r \<in> set res. MX r = None"
    by blast
  from C have "map v1_Container.Name (map render_ContainerRes.Container res) = [''init-a'', ''main'']"
    by (simp add: sample_pod_def sample_podspec_def)
  then have N: "map (\<lambda>r. v1_Container.Name (render_ContainerRes.Container r)) res
                  = [''init-a'', ''main'']"
    by (simp add: comp_def)
  from I have I': "map IsInit res = [True, False]"
    by (simp add: sample_pod_def sample_podspec_def)
  then have "length res = 2" by (metis length_map length_Cons list.size(3) One_nat_def Suc_1)
  then obtain a b where ab: "res = [a, b]"
    by (metis (no_types) length_0_conv length_Suc_conv numeral_2_eq_2)
  with M have M': "map MX res = [None, None]" by simp
  show ?thesis
    by (intro conjI exI [of _ res]) (use h1 h2 m L N I' M' in simp_all)
qed

end
